theory Spec2Isabelle
  imports Complex_Main "HOL-Library.Stream"
begin

section \<open>Spatial math: poses\<close>

text \<open>
  Python floats are modelled as real numbers: every arithmetic operation is exact.
  The small literals of the source (\<open>1e-9\<close>, \<open>1e-6\<close>, ...) are kept as rationals.
\<close>

text \<open>\<open>low_level_mechanics/world.py\<close>, frozen dataclass \<open>Pose2D\<close>.\<close>

record Pose2D =
  pose_x :: real
  pose_y :: real
  pose_theta :: real

definition translated :: "Pose2D \<Rightarrow> real \<Rightarrow> real \<Rightarrow> Pose2D" where
  "translated p dx dy = \<lparr>pose_x = pose_x p + dx, pose_y = pose_y p + dy, pose_theta = pose_theta p\<rparr>"

definition rotated :: "Pose2D \<Rightarrow> real \<Rightarrow> Pose2D" where
  "rotated p dtheta = \<lparr>pose_x = pose_x p, pose_y = pose_y p, pose_theta = pose_theta p + dtheta\<rparr>"

definition transform_point :: "Pose2D \<Rightarrow> real \<times> real \<Rightarrow> real \<times> real" where
  "transform_point p point =
     (let px = fst point; py = snd point;
          cos_t = cos (pose_theta p);
          sin_t = sin (pose_theta p)
      in (pose_x p + cos_t * px - sin_t * py,
          pose_y p + sin_t * px + cos_t * py))"

definition compose :: "Pose2D \<Rightarrow> Pose2D \<Rightarrow> Pose2D" where
  "compose p other =
     (let t = transform_point p (pose_x other, pose_y other)
      in \<lparr>pose_x = fst t, pose_y = snd t, pose_theta = pose_theta p + pose_theta other\<rparr>)"

definition inverse_pose :: "Pose2D \<Rightarrow> Pose2D" where
  "inverse_pose p =
     (let cos_t = cos (pose_theta p);
          sin_t = sin (pose_theta p);
          ix = - pose_x p * cos_t - pose_y p * sin_t;
          iy = pose_x p * sin_t - pose_y p * cos_t
      in \<lparr>pose_x = ix, pose_y = iy, pose_theta = - pose_theta p\<rparr>)"

section \<open>Shapes and collision manifolds\<close>

text \<open>\<open>low_level_mechanics/geometry.py\<close>.\<close>

type_synonym Point2D = "real \<times> real"

datatype py_error = ValueError | KeyError | NotImplementedError

datatype Shape2D = Circle (radius: real) | Polygon (vertices: "Point2D list")

text \<open>\<open>Polygon.__post_init__\<close> refuses fewer than three vertices.\<close>

definition Polygon_init :: "Point2D list \<Rightarrow> py_error + Shape2D" where
  "Polygon_init vs = (if length vs < 3 then Inl ValueError else Inr (Polygon vs))"

fun wf_shape :: "Shape2D \<Rightarrow> bool" where
  "wf_shape (Circle r) = True"
| "wf_shape (Polygon vs) = (3 \<le> length vs)"

definition hypot :: "real \<Rightarrow> real \<Rightarrow> real" where
  "hypot a b = sqrt (a * a + b * b)"

text \<open>The Python idiom \<open>v or 1.0\<close> on a float.\<close>

definition or_one :: "real \<Rightarrow> real" where
  "or_one v = (if v = 0 then 1 else v)"

text \<open>
  Python's \<open>min\<close> and \<open>max\<close> of a list. They raise \<open>ValueError\<close> on the empty list; the
  source calls them on the projections of a polygon's vertices only, which are at least three.
\<close>

definition py_min :: "real list \<Rightarrow> real" where
  "py_min xs = fold min (tl xs) (hd xs)"

definition py_max :: "real list \<Rightarrow> real" where
  "py_max xs = fold max (tl xs) (hd xs)"

definition world_vertices :: "Point2D list \<Rightarrow> Pose2D \<Rightarrow> Point2D list" where
  "world_vertices vs p = map (transform_point p) vs"

definition project :: "Point2D \<Rightarrow> Point2D list \<Rightarrow> real \<times> real" where
  "project axis verts =
     (let len = or_one (hypot (fst axis) (snd axis));
          ax = fst axis / len;
          ay = snd axis / len;
          dots = map (\<lambda>v. fst v * ax + snd v * ay) verts
      in (py_min dots, py_max dots))"

definition distance_point_to_segment :: "Point2D \<Rightarrow> Point2D \<Rightarrow> Point2D \<Rightarrow> real" where
  "distance_point_to_segment point start end =
     (let px = fst point; py = snd point;
          sx = fst start; sy = snd start;
          ex = fst end; ey = snd end;
          dx = ex - sx;
          dy = ey - sy
      in if dx = 0 \<and> dy = 0 then hypot (px - sx) (py - sy)
         else (let t0 = ((px - sx) * dx + (py - sy) * dy) / (dx * dx + dy * dy);
                   t = max 0 (min 1 t0);
                   proj_x = sx + t * dx;
                   proj_y = sy + t * dy
               in hypot (px - proj_x) (py - proj_y)))"

record CollisionManifold =
  normal :: Point2D
  penetration :: real
  contact_point :: Point2D

definition circle_vs_circle_manifold ::
  "real \<Rightarrow> Pose2D \<Rightarrow> real \<Rightarrow> Pose2D \<Rightarrow> CollisionManifold option" where
  "circle_vs_circle_manifold ra pa rb pb =
     (let dx = pose_x pb - pose_x pa;
          dy = pose_y pb - pose_y pa;
          dist_sq = dx * dx + dy * dy;
          radius_sum = ra + rb
      in if dist_sq \<ge> radius_sum * radius_sum then None
         else (let dist = (if dist_sq > 1 / 10 ^ 12 then sqrt dist_sq else 0);
                   pen = radius_sum - dist
               in if dist > 1 / 10 ^ 6
                  then Some \<lparr>normal = (dx / dist, dy / dist), penetration = pen,
                         contact_point = (pose_x pa + (dx / dist) * ra, pose_y pa + (dy / dist) * ra)\<rparr>
                  else Some \<lparr>normal = (1, 0), penetration = pen,
                         contact_point = (pose_x pa, pose_y pa)\<rparr>))"

text \<open>
  The running minimum of \<open>_circle_vs_polygon_manifold\<close> starts at \<open>float("inf")\<close> with no
  closest point: \<open>None\<close> stands for that infinity.
\<close>

fun lt_inf :: "real \<Rightarrow> real option \<Rightarrow> bool" where
  "lt_inf d None = True"
| "lt_inf d (Some c) = (d < c)"

definition closest_vertex_step ::
  "Point2D \<Rightarrow> Point2D \<Rightarrow> real option \<times> Point2D option \<Rightarrow> real option \<times> Point2D option" where
  "closest_vertex_step center v st =
     (let d = hypot (fst center - fst v) (snd center - snd v)
      in if lt_inf d (fst st) then (Some d, Some v) else st)"

definition closest_edge_step ::
  "Point2D \<Rightarrow> Point2D list \<Rightarrow> nat \<Rightarrow> real option \<times> Point2D option \<Rightarrow> real option \<times> Point2D option" where
  "closest_edge_step center wv i st =
     (let start = wv ! i;
          end = wv ! ((i + 1) mod length wv);
          d = distance_point_to_segment center start end
      in if lt_inf d (fst st)
         then (let sx = fst start; sy = snd start;
                   ex = fst end; ey = snd end;
                   dx = ex - sx;
                   dy = ey - sy;
                   proj = (if dx = 0 \<and> dy = 0 then start
                           else (let t0 = ((fst center - sx) * dx + (snd center - sy) * dy) / (dx * dx + dy * dy);
                                     t = max 0 (min 1 t0)
                                 in (sx + t * dx, sy + t * dy)))
               in (Some d, Some proj))
         else st)"

definition circle_vs_polygon_manifold ::
  "real \<Rightarrow> Pose2D \<Rightarrow> Point2D list \<Rightarrow> Pose2D \<Rightarrow> CollisionManifold option" where
  "circle_vs_polygon_manifold r pose_circle vs pose_polygon =
     (let wv = world_vertices vs pose_polygon;
          center = (pose_x pose_circle, pose_y pose_circle);
          st1 = fold (closest_vertex_step center) wv (None, None);
          st2 = fold (closest_edge_step center wv) [0 ..< length wv] st1
      in case st2 of
           (Some closest_dist, Some closest_point) \<Rightarrow>
             (let pen = r - closest_dist
              in if pen \<le> 0 then None
                 else (let nx = fst center - fst closest_point;
                           ny = snd center - snd closest_point;
                           norm_len = or_one (hypot nx ny)
                       in Some \<lparr>normal = (nx / norm_len, ny / norm_len), penetration = pen,
                              contact_point = closest_point\<rparr>))
         | _ \<Rightarrow> None)"

text \<open>
  The inner function \<open>_check_axes\<close> of \<open>_polygon_vs_polygon_manifold\<close>: one pass over the
  edges of \<open>verts1\<close>, carrying the least overlap (initially infinite, \<open>None\<close>), its axis and
  its vertex; \<open>(None, None, None)\<close> as soon as an axis separates the polygons.
\<close>

type_synonym axes_state = "real option \<times> Point2D option \<times> Point2D option"

definition check_axis ::
  "Point2D list \<Rightarrow> Point2D list \<Rightarrow> nat \<Rightarrow> axes_state \<Rightarrow> axes_state option" where
  "check_axis verts1 verts2 i st =
     (let p1 = verts1 ! i;
          p2 = verts1 ! ((i + 1) mod length verts1);
          edge_x = fst p2 - fst p1;
          edge_y = snd p2 - snd p1;
          nrm = (- edge_y, edge_x);
          pr1 = project nrm verts1;
          pr2 = project nrm verts2;
          overlap = min (snd pr1) (snd pr2) - max (fst pr1) (fst pr2)
      in if overlap \<le> 0 then None
         else if lt_inf overlap (fst st)
              then (let len = or_one (hypot (fst nrm) (snd nrm))
                    in Some (Some overlap, Some (fst nrm / len, snd nrm / len), Some (verts1 ! i)))
              else Some st)"

fun check_axes_loop ::
  "Point2D list \<Rightarrow> Point2D list \<Rightarrow> nat list \<Rightarrow> axes_state \<Rightarrow> axes_state" where
  "check_axes_loop verts1 verts2 [] st = st"
| "check_axes_loop verts1 verts2 (i # is) st =
     (case check_axis verts1 verts2 i st of
        None \<Rightarrow> (None, None, None)
      | Some st' \<Rightarrow> check_axes_loop verts1 verts2 is st')"

definition check_axes :: "Point2D list \<Rightarrow> Point2D list \<Rightarrow> axes_state \<Rightarrow> axes_state" where
  "check_axes verts1 verts2 st = check_axes_loop verts1 verts2 [0 ..< length verts1] st"

definition centroid :: "Point2D list \<Rightarrow> Point2D" where
  "centroid verts =
     (if verts = [] then (0, 0)
      else (sum_list (map fst verts) / real (length verts),
            sum_list (map snd verts) / real (length verts)))"

definition polygon_vs_polygon_manifold ::
  "Point2D list \<Rightarrow> Pose2D \<Rightarrow> Point2D list \<Rightarrow> Pose2D \<Rightarrow> CollisionManifold option" where
  "polygon_vs_polygon_manifold va pa vb pb =
     (let verts_a = world_vertices va pa;
          verts_b = world_vertices vb pb;
          st1 = check_axes verts_a verts_b (None, None, None)
      in case fst (snd st1) of
           None \<Rightarrow> None
         | Some _ \<Rightarrow>
             (let st2 = check_axes verts_b verts_a st1
              in case st2 of
                   (Some pen, Some best_axis, best_point) \<Rightarrow>
                     (let center_a = centroid verts_a;
                          center_b = centroid verts_b;
                          dir_ab = (fst center_b - fst center_a, snd center_b - snd center_a);
                          axis = (if fst best_axis * fst dir_ab + snd best_axis * snd dir_ab < 0
                                  then (- fst best_axis, - snd best_axis) else best_axis);
                          contact = (case best_point of Some bp \<Rightarrow> bp | None \<Rightarrow> center_a)
                      in Some \<lparr>normal = axis, penetration = pen, contact_point = contact\<rparr>)
                 | _ \<Rightarrow> None))"

text \<open>\<open>collision_manifold\<close>: the normal points from A to B.\<close>

fun collision_manifold :: "Shape2D \<Rightarrow> Pose2D \<Rightarrow> Shape2D \<Rightarrow> Pose2D \<Rightarrow> CollisionManifold option" where
  "collision_manifold (Circle ra) pa (Circle rb) pb = circle_vs_circle_manifold ra pa rb pb"
| "collision_manifold (Circle ra) pa (Polygon vb) pb = circle_vs_polygon_manifold ra pa vb pb"
| "collision_manifold (Polygon va) pa (Circle rb) pb =
     (case circle_vs_polygon_manifold rb pb va pa of
        Some m \<Rightarrow> Some \<lparr>normal = (- fst (normal m), - snd (normal m)), penetration = penetration m,
                     contact_point = contact_point m\<rparr>
      | None \<Rightarrow> None)"
| "collision_manifold (Polygon va) pa (Polygon vb) pb = polygon_vs_polygon_manifold va pa vb pb"

section \<open>Materials and bodies\<close>

text \<open>
  \<open>low_level_mechanics/materials.py\<close> and \<open>low_level_mechanics/entities.py\<close>. Fields that
  the simulation step never reads (permeability tags, free-form custom attributes, metadata,
  the registry of attached components) are left out.
\<close>

record MaterialProperties =
  friction :: real
  restitution :: real
  reflectivity :: real
  traction :: real
  field_signals :: "string \<rightharpoonup> real"

record DynamicState =
  linear_velocity :: "real \<times> real"
  angular_velocity :: real
  mass :: real
  moment_of_inertia :: real

record SimObject =
  obj_name :: string
  obj_pose :: Pose2D
  obj_shape :: Shape2D
  obj_material :: MaterialProperties
  can_move :: bool
  obj_state :: DynamicState
  pending_forces :: "(real \<times> real) list"
  pending_torque :: real

definition advance_pose :: "DynamicState \<Rightarrow> Pose2D \<Rightarrow> real \<Rightarrow> Pose2D" where
  "advance_pose st p dt =
     (let new_pose = translated p (fst (linear_velocity st) * dt) (snd (linear_velocity st) * dt)
      in if angular_velocity st \<noteq> 0 then rotated new_pose (angular_velocity st * dt) else new_pose)"

definition apply_force :: "SimObject \<Rightarrow> real \<times> real \<Rightarrow> SimObject" where
  "apply_force b force = b\<lparr>pending_forces := pending_forces b @ [force]\<rparr>"

definition clear_impulses :: "SimObject \<Rightarrow> SimObject" where
  "clear_impulses b = b\<lparr>pending_forces := [], pending_torque := 0\<rparr>"

text \<open>\<open>SimObject.integrate\<close>.\<close>

definition integrate :: "SimObject \<Rightarrow> real \<Rightarrow> SimObject" where
  "integrate b dt =
     (if \<not> can_move b then clear_impulses b
      else (let fx = sum_list (map fst (pending_forces b));
                fy = sum_list (map snd (pending_forces b));
                vx0 = fst (linear_velocity (obj_state b));
                vy0 = snd (linear_velocity (obj_state b));
                m = mass (obj_state b);
                vx = (if m > 0 then vx0 + (fx / m) * dt else vx0);
                vy = (if m > 0 then vy0 + (fy / m) * dt else vy0);
                st1 = (obj_state b)\<lparr>linear_velocity := (vx, vy)\<rparr>;
                st2 = (if moment_of_inertia st1 > 0
                       then st1\<lparr>angular_velocity :=
                              angular_velocity st1 + (pending_torque b / moment_of_inertia st1) * dt\<rparr>
                       else st1)
            in clear_impulses (b\<lparr>obj_state := st2, obj_pose := advance_pose st2 (obj_pose b) dt\<rparr>)))"

section \<open>Traction-limited wheel motors\<close>

text \<open>\<open>middle_level_library/motors.py\<close>.\<close>

definition clamp :: "real \<Rightarrow> real \<Rightarrow> real \<Rightarrow> real" where
  "clamp v lo hi = max lo (min hi v)"

definition apply_impulse :: "SimObject \<Rightarrow> real \<times> real \<Rightarrow> real \<times> real \<Rightarrow> SimObject" where
  "apply_impulse b impulse contact =
     (if \<not> can_move b \<or> mass (obj_state b) \<le> 0 then b
      else (let inv_mass = 1 / max (mass (obj_state b)) (1 / 10 ^ 9);
                inv_inertia = (if moment_of_inertia (obj_state b) \<le> 0 then 0
                               else 1 / moment_of_inertia (obj_state b));
                rx = fst contact - pose_x (obj_pose b);
                ry = snd contact - pose_y (obj_pose b);
                jx = fst impulse; jy = snd impulse;
                vx = fst (linear_velocity (obj_state b));
                vy = snd (linear_velocity (obj_state b))
            in b\<lparr>obj_state := (obj_state b)
                    \<lparr>linear_velocity := (vx + jx * inv_mass, vy + jy * inv_mass),
                     angular_velocity := angular_velocity (obj_state b) + (rx * jy - ry * jx) * inv_inertia\<rparr>\<rparr>))"

definition contact_velocity :: "SimObject \<Rightarrow> real \<times> real \<Rightarrow> real \<times> real" where
  "contact_velocity b contact =
     (let vx = fst (linear_velocity (obj_state b));
          vy = snd (linear_velocity (obj_state b));
          omega = angular_velocity (obj_state b);
          rx = fst contact - pose_x (obj_pose b);
          ry = snd contact - pose_y (obj_pose b)
      in (vx - omega * ry, vy + omega * rx))"

definition inv_mass_term :: "SimObject \<Rightarrow> real \<times> real \<Rightarrow> real \<times> real \<Rightarrow> real" where
  "inv_mass_term b contact axis =
     (let inv_mass = (if \<not> can_move b \<or> mass (obj_state b) \<le> 0 then 0 else 1 / mass (obj_state b));
          inv_inertia = (if moment_of_inertia (obj_state b) \<le> 0 then 0
                         else 1 / moment_of_inertia (obj_state b));
          rx = fst contact - pose_x (obj_pose b);
          ry = snd contact - pose_y (obj_pose b);
          r_cross_n = rx * snd axis - ry * fst axis
      in inv_mass + (r_cross_n * r_cross_n) * inv_inertia)"

record TractionReport =
  report_step :: "int option"
  slip_ratio :: real
  lateral_slip :: real
  wheel_speed :: real
  preferred_speed :: real
  contact_speed :: real
  contact_speed_after :: real
  desired_longitudinal_impulse :: real
  applied_longitudinal_impulse :: real
  applied_lateral_impulse :: real
  normal_load :: real

text \<open>
  \<open>_solve_wheel_traction\<close>. The Python function mutates the body through
  \<open>_apply_impulse\<close> and returns the report; here it returns both. The keyword
  arguments keep their names with a \<open>0\<close> where the body rebinds them.
\<close>

definition lateral_solve ::
  "SimObject \<Rightarrow> real \<times> real \<Rightarrow> real \<times> real \<Rightarrow> real \<Rightarrow> real \<Rightarrow> real \<Rightarrow> SimObject \<times> real" where
  "lateral_solve b contact lateral v_lat max_lat_impulse lat_damping =
     (if max_lat_impulse > 0 \<and> \<bar>v_lat\<bar> > 1 / 10 ^ 6
      then (let inv_mass_lat = inv_mass_term b contact lateral
            in if inv_mass_lat > 1 / 10 ^ 9
               then (let target_j_lat = (- v_lat / inv_mass_lat) * (1 - lat_damping);
                         j_lat = clamp target_j_lat (- max_lat_impulse) max_lat_impulse
                     in (apply_impulse b (fst lateral * j_lat, snd lateral * j_lat) contact, j_lat))
               else (b, 0))
      else (b, 0))"

definition longitudinal_solve ::
  "SimObject \<Rightarrow> real \<times> real \<Rightarrow> real \<times> real \<Rightarrow> real \<Rightarrow> real \<Rightarrow> real \<Rightarrow> real \<Rightarrow> real \<Rightarrow> real
     \<Rightarrow> SimObject \<times> real \<times> real" where
  "longitudinal_solve b contact forward pref_speed v_long max_long_impulse max_lat_impulse drive_cap j_lat =
     (let inv_mass_long = inv_mass_term b contact forward
      in if inv_mass_long > 1 / 10 ^ 9
         then (let desired_impulse = (pref_speed - v_long) / inv_mass_long;
                   long_limit0 = max_long_impulse;
                   long_limit1 =
                     (if max_long_impulse > 0 \<and> max_lat_impulse > 0
                      then (let lat_ratio = min 1 (\<bar>j_lat\<bar> / (max_lat_impulse + 1 / 10 ^ 9))
                            in max_long_impulse * max 0 (1 - (1 / 2) * lat_ratio))
                      else long_limit0);
                   long_limit =
                     (if drive_cap > 0
                      then (if long_limit1 > 0 then min long_limit1 drive_cap else drive_cap)
                      else long_limit1)
               in if long_limit > 0
                  then (let j_drive = clamp desired_impulse (- long_limit) long_limit
                        in if j_drive \<noteq> 0
                           then (apply_impulse b (fst forward * j_drive, snd forward * j_drive) contact,
                                 desired_impulse, j_drive)
                           else (b, desired_impulse, j_drive))
                  else (b, desired_impulse, 0))
         else (b, 0, 0))"

definition solve_wheel_traction ::
  "SimObject \<Rightarrow> real \<times> real \<Rightarrow> real \<times> real \<Rightarrow> real \<Rightarrow> real \<Rightarrow> real \<Rightarrow> real \<Rightarrow> real \<Rightarrow> real \<Rightarrow> real
     \<Rightarrow> SimObject \<times> TractionReport" where
  "solve_wheel_traction b contact forward pref_speed drive_impulse_cap mu_long0 mu_lat0 normal_load0
       lateral_damping0 dt =
     (if \<not> can_move b
      then (b, \<lparr>report_step = None, slip_ratio = 0, lateral_slip = 0, wheel_speed = pref_speed,
                 preferred_speed = pref_speed, contact_speed = 0, contact_speed_after = 0,
                 desired_longitudinal_impulse = 0, applied_longitudinal_impulse = 0,
                 applied_lateral_impulse = 0, normal_load = normal_load0\<rparr>)
      else (let nload = max normal_load0 0;
                lat_damping = clamp lateral_damping0 0 1;
                lateral = (- snd forward, fst forward);
                max_long_impulse = max 0 (\<bar>mu_long0\<bar> * nload * dt);
                max_lat_impulse = max 0 (\<bar>mu_lat0\<bar> * nload * dt);
                drive_cap = max 0 \<bar>drive_impulse_cap\<bar>;
                vc = contact_velocity b contact;
                v_long = fst vc * fst forward + snd vc * snd forward;
                v_lat = fst vc * fst lateral + snd vc * snd lateral;
                slip_denom = max (max \<bar>pref_speed\<bar> \<bar>v_long\<bar>) (5 / 100);
                slip = (pref_speed - v_long) / slip_denom;
                lat = lateral_solve b contact lateral v_lat max_lat_impulse lat_damping;
                lon = longitudinal_solve (fst lat) contact forward pref_speed v_long
                        max_long_impulse max_lat_impulse drive_cap (snd lat);
                b2 = fst lon;
                v_post_long = contact_velocity b2 contact;
                v_post = fst v_post_long * fst forward + snd v_post_long * snd forward
            in (b2, \<lparr>report_step = None, slip_ratio = slip, lateral_slip = v_lat,
                      wheel_speed = pref_speed, preferred_speed = pref_speed,
                      contact_speed = v_long, contact_speed_after = v_post,
                      desired_longitudinal_impulse = fst (snd lon),
                      applied_longitudinal_impulse = snd (snd lon),
                      applied_lateral_impulse = snd lat, normal_load = nload\<rparr>)))"

section \<open>Properties\<close>

lemma cos_sin_sq: "cos t * cos t + sin t * sin t = (1::real)"
  using sin_cos_squared_add2 [of t] by (simp add: power2_eq_square)

lemma rot_back_x: "c * c + s * s = (1::real) \<Longrightarrow> c * (c * a - s * b) + s * (s * a + c * b) = a"
proof -
  assume h: "c * c + s * s = 1"
  have "c * (c * a - s * b) + s * (s * a + c * b) = (c * c + s * s) * a"
    by (simp add: algebra_simps)
  then show ?thesis using h by simp
qed

lemma rot_back_y: "c * c + s * s = (1::real) \<Longrightarrow> c * (s * a + c * b) - s * (c * a - s * b) = b"
proof -
  assume h: "c * c + s * s = 1"
  have "c * (s * a + c * b) - s * (c * a - s * b) = (c * c + s * s) * b"
    by (simp add: algebra_simps)
  then show ?thesis using h by simp
qed

lemma inv_compose_x: "c * c + s * s = (1::real) \<Longrightarrow> X + c * (- X * c - Y * s) - s * (X * s - Y * c) = 0"
proof -
  assume h: "c * c + s * s = 1"
  have "X + c * (- X * c - Y * s) - s * (X * s - Y * c) = X * (1 - (c * c + s * s))"
    by (simp add: algebra_simps)
  then show ?thesis using h by simp
qed

lemma inv_compose_y: "c * c + s * s = (1::real) \<Longrightarrow> Y + s * (- X * c - Y * s) + c * (X * s - Y * c) = 0"
proof -
  assume h: "c * c + s * s = 1"
  have "Y + s * (- X * c - Y * s) + c * (X * s - Y * c) = Y * (1 - (c * c + s * s))"
    by (simp add: algebra_simps)
  then show ?thesis using h by simp
qed

lemma inv_point_x:
  "c * c + s * s = (1::real) \<Longrightarrow> - X * c - Y * s + c * (X + c * a - s * b) + s * (Y + s * a + c * b) = a"
proof -
  assume h: "c * c + s * s = 1"
  have "- X * c - Y * s + c * (X + c * a - s * b) + s * (Y + s * a + c * b)
        = c * (c * a - s * b) + s * (s * a + c * b)"
    by (simp add: algebra_simps)
  then show ?thesis using rot_back_x [OF h, of a b] by simp
qed

lemma inv_point_y:
  "c * c + s * s = (1::real) \<Longrightarrow> X * s - Y * c - s * (X + c * a - s * b) + c * (Y + s * a + c * b) = b"
proof -
  assume h: "c * c + s * s = 1"
  have "X * s - Y * c - s * (X + c * a - s * b) + c * (Y + s * a + c * b)
        = c * (s * a + c * b) - s * (c * a - s * b)"
    by (simp add: algebra_simps)
  then show ?thesis using rot_back_y [OF h, of a b] by simp
qed

text \<open>
  C9. For every pose \<open>p\<close>, \<open>p.compose(p.inverse())\<close> is the identity pose
  \<open>(0, 0, 0)\<close>, and for every point \<open>q\<close>,
  \<open>p.inverse().transform_point(p.transform_point(q)) = q\<close>, over exact real arithmetic.
\<close>

theorem pose_compose_inverse_roundtrip:
  "compose p (inverse_pose p) = \<lparr>pose_x = 0, pose_y = 0, pose_theta = 0\<rparr>
   \<and> transform_point (inverse_pose p) (transform_point p q) = q"
proof
  have cs: "cos (pose_theta p) * cos (pose_theta p) + sin (pose_theta p) * sin (pose_theta p) = 1"
    by (rule cos_sin_sq)
  show "compose p (inverse_pose p) = \<lparr>pose_x = 0, pose_y = 0, pose_theta = 0\<rparr>"
    unfolding compose_def inverse_pose_def transform_point_def Let_def
    using inv_compose_x [OF cs, of "pose_x p" "pose_y p"] inv_compose_y [OF cs, of "pose_y p" "pose_x p"]
    by simp
next
  obtain a b where q: "q = (a, b)" by (cases q)
  have cs: "cos (pose_theta p) * cos (pose_theta p) + sin (pose_theta p) * sin (pose_theta p) = 1"
    by (rule cos_sin_sq)
  show "transform_point (inverse_pose p) (transform_point p q) = q"
    unfolding q inverse_pose_def transform_point_def Let_def
    using inv_point_x [OF cs, of "pose_x p" "pose_y p" a b] inv_point_y [OF cs, of "pose_x p" "pose_y p" a b]
    by simp
qed

end
